theory Spec2Isabelle
  imports Main "HOL-Library.AList"
begin

section \<open>Data model (movie.types.ts)\<close>

text \<open>
  The interfaces of \<^verbatim>\<open>movie.types.ts\<close> as records. JavaScript strings are modelled as
  \<^typ>\<open>string\<close>; an optional property (\<^verbatim>\<open>Error?: string\<close>) is an \<^typ>\<open>string option\<close>.
\<close>

record IMovie =
  imdbID :: string
  Title :: string
  Year :: string
  Type :: string
  Poster :: string

record Rating =
  Source :: string
  Value :: string

record IMovieDetails = IMovie +
  Rated :: string
  Released :: string
  Runtime :: string
  Genre :: string
  Director :: string
  Writer :: string
  Actors :: string
  Plot :: string
  Language :: string
  Country :: string
  Awards :: string
  Ratings :: "Rating list"
  Metascore :: string
  imdbRating :: string
  imdbVotes :: string
  DVD :: string
  BoxOffice :: string
  Production :: string
  Website :: string
  dResponse :: string
  dError :: "string option"

text \<open>
  \<^verbatim>\<open>IMovieSearchResponse\<close>. The declared type of \<^verbatim>\<open>Search\<close> is \<^verbatim>\<open>IMovie[]\<close>, but the remote
  omits the property on a failure body and the hook guards every read of it
  (\<^verbatim>\<open>response.Search?.length\<close>, \<^verbatim>\<open>response.Search || []\<close>), so the field is optional here.
\<close>

record IMovieSearchResponse =
  Search :: "IMovie list option"
  totalResults :: string
  Response :: string
  Error :: "string option"

section \<open>Result cache (useMovieCache.ts)\<close>

text \<open>
  \<^verbatim>\<open>const movieDetailsCache: Record<string, IMovieDetails> = {}\<close> is an ordinary object: it
  has own properties, listed here in insertion order, and a prototype, which is
  \<^verbatim>\<open>Object.prototype\<close> (\<open>None\<close>) until an assignment to the key \<^verbatim>\<open>__proto__\<close> replaces it by
  the assigned record.
\<close>

record movieDetailsCache =
  own :: "(string \<times> IMovieDetails) list"
  proto :: "IMovieDetails option"

definition empty_cache :: movieDetailsCache where
  "empty_cache = \<lparr>own = [], proto = None\<rparr>"

text \<open>
  What a property read of the cache object can yield: a stored record, a string or the
  ratings array of the record that serves as prototype, a method of \<^verbatim>\<open>Object.prototype\<close>
  (named), or \<^verbatim>\<open>Object.prototype\<close> itself.
\<close>

datatype js_value =
    Details IMovieDetails
  | Text string
  | RatingsArray "Rating list"
  | Builtin string
  | ObjectPrototype

text \<open>The data properties of \<^verbatim>\<open>Object.prototype\<close>; \<^verbatim>\<open>__proto__\<close> is its one accessor.\<close>

definition Object_prototype_members :: "string list" where
  "Object_prototype_members =
     [''constructor'', ''__defineGetter__'', ''__defineSetter__'', ''hasOwnProperty'',
      ''__lookupGetter__'', ''__lookupSetter__'', ''isPrototypeOf'',
      ''propertyIsEnumerable'', ''toString'', ''valueOf'', ''toLocaleString'']"

text \<open>The own properties of a record, as \<^verbatim>\<open>IMovieDetails\<close> declares them.\<close>

definition details_property :: "IMovieDetails \<Rightarrow> string \<Rightarrow> js_value option" where
  "details_property r name =
     map_of
       ([(''imdbID'', Text (imdbID r)), (''Title'', Text (Title r)), (''Year'', Text (Year r)),
         (''Type'', Text (Type r)), (''Poster'', Text (Poster r)), (''Rated'', Text (Rated r)),
         (''Released'', Text (Released r)), (''Runtime'', Text (Runtime r)),
         (''Genre'', Text (Genre r)), (''Director'', Text (Director r)),
         (''Writer'', Text (Writer r)), (''Actors'', Text (Actors r)),
         (''Plot'', Text (Plot r)), (''Language'', Text (Language r)),
         (''Country'', Text (Country r)), (''Awards'', Text (Awards r)),
         (''Ratings'', RatingsArray (Ratings r)), (''Metascore'', Text (Metascore r)),
         (''imdbRating'', Text (imdbRating r)), (''imdbVotes'', Text (imdbVotes r)),
         (''DVD'', Text (DVD r)), (''BoxOffice'', Text (BoxOffice r)),
         (''Production'', Text (Production r)), (''Website'', Text (Website r)),
         (''Response'', Text (dResponse r))]
        @ (case dError r of None \<Rightarrow> [] | Some e \<Rightarrow> [(''Error'', Text e)]))
       name"

text \<open>
  The read \<^verbatim>\<open>movieDetailsCache[movieId]\<close> (\<open>None\<close> is \<^verbatim>\<open>undefined\<close>): an own property first;
  else, for \<^verbatim>\<open>__proto__\<close>, the accessor inherited from \<^verbatim>\<open>Object.prototype\<close>, which yields the
  object's prototype; else a property of the prototype record, if there is one; else a
  member of \<^verbatim>\<open>Object.prototype\<close>.
\<close>

definition get_property :: "movieDetailsCache \<Rightarrow> string \<Rightarrow> js_value option" where
  "get_property cache movieId =
     (case map_of (own cache) movieId of
        Some r \<Rightarrow> Some (Details r)
      | None \<Rightarrow>
          if movieId = ''__proto__''
          then Some (case proto cache of None \<Rightarrow> ObjectPrototype | Some r \<Rightarrow> Details r)
          else
            (case (case proto cache of None \<Rightarrow> None | Some r \<Rightarrow> details_property r movieId) of
               Some v \<Rightarrow> Some v
             | None \<Rightarrow>
                 if movieId \<in> set Object_prototype_members then Some (Builtin movieId)
                 else None))"

text \<open>Of these values only the empty string is falsy.\<close>

fun truthy :: "js_value \<Rightarrow> bool" where
  "truthy (Text v) = (v \<noteq> [])"
| "truthy _ = True"

text \<open>\<^verbatim>\<open>return movieDetailsCache[movieId] || null\<close> (\<open>None\<close> is \<^verbatim>\<open>null\<close>).\<close>

definition getFromCache :: "movieDetailsCache \<Rightarrow> string \<Rightarrow> js_value option" where
  "getFromCache cache movieId =
     (case get_property cache movieId of
        None \<Rightarrow> None
      | Some v \<Rightarrow> if truthy v then Some v else None)"

text \<open>
  \<^verbatim>\<open>movieDetailsCache[movieId] = details\<close>: an existing own property is overwritten; else the
  key \<^verbatim>\<open>__proto__\<close> reaches the inherited setter, which makes the record the prototype and
  adds no own property; any other key becomes a new own property.
\<close>

definition addToCache :: "string \<Rightarrow> IMovieDetails \<Rightarrow> movieDetailsCache \<Rightarrow> movieDetailsCache" where
  "addToCache movieId details cache =
     (if map_of (own cache) movieId = None \<and> movieId = ''__proto__''
      then cache\<lparr>proto := Some details\<rparr>
      else cache\<lparr>own := AList.update movieId details (own cache)\<rparr>)"

text \<open>\<^verbatim>\<open>delete movieDetailsCache[movieId]\<close> removes an own property and nothing else.\<close>

definition removeFromCache :: "string \<Rightarrow> movieDetailsCache \<Rightarrow> movieDetailsCache" where
  "removeFromCache movieId cache = cache\<lparr>own := AList.delete movieId (own cache)\<rparr>"

text \<open>\<^verbatim>\<open>Object.keys(movieDetailsCache).forEach(key => { delete movieDetailsCache[key]; })\<close>\<close>

definition clearCache :: "movieDetailsCache \<Rightarrow> movieDetailsCache" where
  "clearCache cache = fold removeFromCache (map fst (own cache)) cache"

section \<open>JavaScript helpers used by the hooks\<close>

text \<open>
  White space as \<^verbatim>\<open>String.prototype.trim\<close> and \<^verbatim>\<open>parseInt\<close> skip it, for the code units
  below 256: TAB, LF, VT, FF, CR, SPACE and NBSP.
\<close>

definition is_space :: "char \<Rightarrow> bool" where
  "is_space c = (of_char c \<in> {9, 10, 11, 12, 13, 32, 160 :: nat})"

definition trim :: "string \<Rightarrow> string" where
  "trim s = rev (dropWhile is_space (rev (dropWhile is_space s)))"

definition is_digit :: "char \<Rightarrow> bool" where
  "is_digit c = (48 \<le> (of_char c :: nat) \<and> (of_char c :: nat) \<le> 57)"

definition digits_value :: "string \<Rightarrow> nat" where
  "digits_value ds = foldl (\<lambda>acc c. 10 * acc + (of_char c - 48)) 0 ds"

text \<open>
  \<^verbatim>\<open>parseInt(s, 10)\<close>: skip leading white space, read an optional sign, then the longest
  prefix of decimal digits; \<open>None\<close> is \<^verbatim>\<open>NaN\<close> (no digit read). The values met here are
  record counts, far below \<open>2 ^ 53\<close>, so the number is an \<^typ>\<open>int\<close>.
\<close>

definition parseInt :: "string \<Rightarrow> int option" where
  "parseInt s =
     (let t = dropWhile is_space s;
          neg = (t \<noteq> [] \<and> hd t = CHR ''-'');
          u = (if t \<noteq> [] \<and> (hd t = CHR ''-'' \<or> hd t = CHR ''+'') then tl t else t);
          ds = takeWhile is_digit u
      in if ds = [] then None
         else Some (if neg then - int (digits_value ds) else int (digits_value ds)))"

text \<open>\<^verbatim>\<open>a > b\<close> where \<^verbatim>\<open>a\<close> may be \<^verbatim>\<open>NaN\<close>: every comparison with \<^verbatim>\<open>NaN\<close> is false.\<close>

definition js_gt :: "int option \<Rightarrow> int \<Rightarrow> bool" where
  "js_gt a b = (case a of None \<Rightarrow> False | Some n \<Rightarrow> n > b)"

text \<open>\<^verbatim>\<open>x || fallback\<close> on an optional string: \<^verbatim>\<open>undefined\<close> and \<^verbatim>\<open>""\<close> are falsy.\<close>

definition or_else :: "string option \<Rightarrow> string \<Rightarrow> string" where
  "or_else x fallback = (case x of None \<Rightarrow> fallback | Some v \<Rightarrow> if v = [] then fallback else v)"

section \<open>What an awaited request can deliver (omdbService.ts, axios)\<close>

text \<open>
  \<^verbatim>\<open>omdbService.search\<close> and \<^verbatim>\<open>getDetails\<close> return \<^verbatim>\<open>response.data\<close> or rethrow. A thrown value
  is a cancellation (\<^verbatim>\<open>axios.isCancel\<close>), an axios error (\<^verbatim>\<open>axios.isAxiosError\<close>) with or
  without an HTTP response, or anything else. Of the response the hook reads the status
  and the \<^verbatim>\<open>Error\<close> property of the body.
\<close>

datatype axios_response = AxiosResponse (status: nat) (data_Error: "string option")

datatype failure = Cancel | AxiosError "axios_response option" | OtherError

datatype 'a outcome = Resolved 'a | Rejected failure

fun isCancel :: "failure \<Rightarrow> bool" where
  "isCancel Cancel = True"
| "isCancel _ = False"

section \<open>Detail fetcher (useMovieDetails.ts)\<close>

text \<open>
  The state of one \<^verbatim>\<open>useMovieDetails\<close> instance, the shared module-level cache, and the
  log of the calls of \<^verbatim>\<open>omdbService.getDetails\<close> (controller and id).
\<close>

record details_state =
  details :: "IMovieDetails option"
  loading :: bool
  error :: "string option"
  abortControllerRef :: "nat option"
  controllers :: nat
  aborted :: "nat set"
  requests :: "(nat \<times> string) list"
  cache :: movieDetailsCache

text \<open>
  \<^verbatim>\<open>fetchDetails\<close> up to its \<^verbatim>\<open>await\<close>. The hook takes \<^verbatim>\<open>getFromCache\<close> and \<^verbatim>\<open>addToCache\<close>
  from \<^verbatim>\<open>useMovieCache()\<close>, and \<^verbatim>\<open>fetchDetails\<close> calls neither.
\<close>

definition fetchDetails :: "string \<Rightarrow> details_state \<Rightarrow> details_state" where
  "fetchDetails movieId s =
     (if movieId = [] then s
      else
        let s1 = (case details_state.abortControllerRef s of
                    None \<Rightarrow> s
                  | Some c \<Rightarrow> s\<lparr>details_state.aborted := insert c (details_state.aborted s)\<rparr>);
            abortController = details_state.controllers s1;
            s2 = s1\<lparr>details_state.controllers := Suc abortController,
                    details_state.abortControllerRef := Some abortController\<rparr>;
            s3 = s2\<lparr>details_state.loading := True, details_state.error := None\<rparr>
        in s3\<lparr>details_state.requests := details_state.requests s3 @ [(abortController, movieId)]\<rparr>)"

text \<open>\<^verbatim>\<open>fetchDetails\<close> from the \<^verbatim>\<open>await\<close> on: \<^verbatim>\<open>try\<close> or \<^verbatim>\<open>catch\<close>, then \<^verbatim>\<open>finally\<close>.\<close>

definition fetchDetails_settle ::
  "nat \<Rightarrow> IMovieDetails outcome \<Rightarrow> details_state \<Rightarrow> details_state" where
  "fetchDetails_settle abortController out s =
     (let s1 =
        (case out of
           Resolved response \<Rightarrow>
             if details_state.abortControllerRef s = Some abortController then
               if dResponse response = ''False'' then
                 s\<lparr>details_state.error :=
                     Some (if dError response = Some ''Request limit reached!''
                           then ''API rate limit reached. Please try again later.''
                           else or_else (dError response) ''Failed to fetch movie details''),
                   details := None\<rparr>
               else s\<lparr>details := Some response\<rparr>
             else s
         | Rejected err \<Rightarrow>
             if details_state.abortControllerRef s = Some abortController \<and> \<not> isCancel err then
               s\<lparr>details_state.error := Some ''Failed to fetch movie details. Please try again.'',
                 details := None\<rparr>
             else s)
      in if details_state.abortControllerRef s1 = Some abortController
         then s1\<lparr>details_state.loading := False\<rparr> else s1)"

text \<open>The effect on \<^verbatim>\<open>[movieId, fetchDetails]\<close>, for the hook's argument \<open>movieId\<close>.\<close>

definition movieId_effect :: "string option \<Rightarrow> details_state \<Rightarrow> details_state" where
  "movieId_effect movieId s =
     (case movieId of
        Some (c # cs) \<Rightarrow> fetchDetails (c # cs) s
      | _ \<Rightarrow> s\<lparr>details := None, details_state.error := None\<rparr>)"

section \<open>Search orchestrator (useDebouncedSearch.ts)\<close>

text \<open>
  The hook's React state and refs, followed by the environment the hook acts on. An
  \<^verbatim>\<open>AbortController\<close> object is identified by the number of controllers created before it,
  so \<^verbatim>\<open>abortControllerRef.current === abortController\<close> is equality of these numbers;
  \<open>aborted\<close> holds the controllers whose \<^verbatim>\<open>abort()\<close> has been called; \<open>requests\<close> logs
  every call of \<^verbatim>\<open>omdbService.search\<close> with its controller, query and page; \<open>now\<close> is the
  clock in milliseconds and \<open>timer\<close> the pending invocation of the debounced function
  (deadline and argument).
\<close>

record search_state =
  query :: string
  results :: "IMovieSearchResponse option"
  loading :: bool
  error :: "string option"
  page :: nat
  hasMore :: bool
  abortControllerRef :: "nat option"
  isInitialLoad :: bool
  controllers :: nat
  aborted :: "nat set"
  requests :: "(nat \<times> string \<times> nat) list"
  now :: nat
  timer :: "(nat \<times> string) option"

text \<open>The state at mount: the \<^verbatim>\<open>useState\<close> and \<^verbatim>\<open>useRef\<close> initial values.\<close>

definition init :: search_state where
  "init = \<lparr>query = [], results = None, loading = False, error = None, page = 1,
     hasMore = False, abortControllerRef = None, isInitialLoad = True,
     controllers = 0, aborted = {}, requests = [], now = 0, timer = None\<rparr>"

text \<open>\<^verbatim>\<open>if (abortControllerRef.current) { abortControllerRef.current.abort(); }\<close>\<close>

definition abort_current :: "search_state \<Rightarrow> search_state" where
  "abort_current s =
     (case abortControllerRef s of
        None \<Rightarrow> s
      | Some c \<Rightarrow> s\<lparr>aborted := insert c (aborted s)\<rparr>)"

text \<open>
  \<^verbatim>\<open>searchMovies\<close> up to its \<^verbatim>\<open>await\<close>: the blank-query return, the abort of the previous
  controller, the new controller, the two state updates and the call of the service.
\<close>

definition searchMovies :: "string \<Rightarrow> nat \<Rightarrow> search_state \<Rightarrow> search_state" where
  "searchMovies searchQuery pageNum s =
     (if trim searchQuery = [] then s\<lparr>results := None, hasMore := False\<rparr>
      else
        let s1 = abort_current s;
            abortController = controllers s1;
            s2 = s1\<lparr>controllers := Suc abortController,
                    abortControllerRef := Some abortController\<rparr>;
            s3 = s2\<lparr>loading := True, error := None\<rparr>
        in s3\<lparr>requests := requests s3 @ [(abortController, searchQuery, pageNum)]\<rparr>)"

text \<open>
  The message chosen in the \<^verbatim>\<open>catch\<close> block for a failure that is not a cancellation;
  \<open>response_Error\<close> is \<^verbatim>\<open>err.response?.data?.Error\<close> and \<open>response_status\<close> is
  \<^verbatim>\<open>err.response?.status\<close>. A non-empty \<^verbatim>\<open>Error\<close> of the body is tested first.
\<close>

definition response_Error :: "axios_response option \<Rightarrow> string option" where
  "response_Error response = (case response of None \<Rightarrow> None | Some r \<Rightarrow> data_Error r)"

definition response_status :: "axios_response option \<Rightarrow> nat option" where
  "response_status response = (case response of None \<Rightarrow> None | Some r \<Rightarrow> Some (status r))"

fun failure_message :: "failure \<Rightarrow> string" where
  "failure_message (AxiosError response) =
     (case response_Error response of
        Some (c # cs) \<Rightarrow> c # cs
      | _ \<Rightarrow>
          if response_status response = Some 401
          then ''API key is invalid or missing. Please contact support.''
          else if response_status response = Some 429
          then ''API rate limit reached. Please try again later.''
          else ''Failed to fetch movies. Please try again.'')"
| "failure_message _ = ''Failed to fetch movies. Please try again.''"

text \<open>\<^verbatim>\<open>r.Search || []\<close> and \<^verbatim>\<open>prev?.Search || []\<close> (an array, even an empty one, is truthy).\<close>

definition Search_or_empty :: "IMovieSearchResponse \<Rightarrow> IMovie list" where
  "Search_or_empty r = (case Search r of None \<Rightarrow> [] | Some xs \<Rightarrow> xs)"

definition prev_Search :: "IMovieSearchResponse option \<Rightarrow> IMovie list" where
  "prev_Search prev = (case prev of None \<Rightarrow> [] | Some r \<Rightarrow> Search_or_empty r)"

text \<open>
  The \<^verbatim>\<open>try\<close> block after the \<^verbatim>\<open>await\<close>, for the response \<open>response\<close>;
  \<^verbatim>\<open>!!response.Search?.length\<close> is true when \<^verbatim>\<open>Search\<close> is present and not empty.
\<close>

definition on_response :: "nat \<Rightarrow> nat \<Rightarrow> IMovieSearchResponse \<Rightarrow> search_state \<Rightarrow> search_state" where
  "on_response abortController pageNum response s =
     (if abortControllerRef s = Some abortController then
        if Response response = ''False'' then
          s\<lparr>error := Some (if Error response = Some ''Request limit reached!''
                            then ''API rate limit reached. Please try again later.''
                            else or_else (Error response) ''No results found''),
            results := None, hasMore := False\<rparr>
        else
          let s1 = (if pageNum = 1 then s\<lparr>results := Some response, isInitialLoad := False\<rparr>
                    else s\<lparr>results := Some (response\<lparr>Search :=
                            Some (prev_Search (results s) @ Search_or_empty response)\<rparr>)\<rparr>);
              total = parseInt (totalResults response)
          in s1\<lparr>hasMore := (length (Search_or_empty response) \<noteq> 0
                             \<and> js_gt total (int (pageNum * 10)))\<rparr>
      else s)"

text \<open>The \<^verbatim>\<open>catch\<close> block.\<close>

definition on_failure :: "nat \<Rightarrow> failure \<Rightarrow> search_state \<Rightarrow> search_state" where
  "on_failure abortController err s =
     (if abortControllerRef s = Some abortController \<and> \<not> isCancel err then
        s\<lparr>error := Some (failure_message err), results := None, hasMore := False\<rparr>
      else s)"

text \<open>
  \<^verbatim>\<open>searchMovies\<close> from the \<^verbatim>\<open>await\<close> on, for the call that created \<open>abortController\<close> with
  page \<open>pageNum\<close>: the \<^verbatim>\<open>try\<close> or the \<^verbatim>\<open>catch\<close> block, then the \<^verbatim>\<open>finally\<close> block.
\<close>

definition searchMovies_settle ::
  "nat \<Rightarrow> nat \<Rightarrow> IMovieSearchResponse outcome \<Rightarrow> search_state \<Rightarrow> search_state" where
  "searchMovies_settle abortController pageNum out s =
     (let s1 = (case out of
                  Resolved response \<Rightarrow> on_response abortController pageNum response s
                | Rejected err \<Rightarrow> on_failure abortController err s)
      in if abortControllerRef s1 = Some abortController then s1\<lparr>loading := False\<rparr> else s1)"

definition debouncedSearch :: "string \<Rightarrow> search_state \<Rightarrow> search_state" where
  "debouncedSearch searchQuery s =
     searchMovies searchQuery 1 (s\<lparr>page := 1, hasMore := False, isInitialLoad := True\<rparr>)"

text \<open>
  Modelled from the spec: \<^verbatim>\<open>debounce\<close> is lodash's, which is not part of the repository.
  It is the single-slot sliding timer of the design notes: each call replaces the pending
  timer by one that expires \<open>delay\<close> milliseconds later and remembers the last argument;
  a timer that expires invokes the function once and leaves no timer.
\<close>

definition debouncedSearchFn :: "nat \<Rightarrow> string \<Rightarrow> search_state \<Rightarrow> search_state" where
  "debouncedSearchFn delay searchQuery s = s\<lparr>timer := Some (now s + delay, searchQuery)\<rparr>"

text \<open>
  Modelled from the spec: the passing of \<open>d\<close> milliseconds for lodash's timer. A pending
  timer whose deadline is reached invokes \<^verbatim>\<open>debouncedSearch\<close> with its argument.
\<close>

definition advance :: "nat \<Rightarrow> search_state \<Rightarrow> search_state" where
  "advance d s =
     (case timer s of
        None \<Rightarrow> s\<lparr>now := now s + d\<rparr>
      | Some (deadline, searchQuery) \<Rightarrow>
          if deadline \<le> now s + d
          then (debouncedSearch searchQuery (s\<lparr>timer := None\<rparr>))\<lparr>now := now s + d\<rparr>
          else s\<lparr>now := now s + d\<rparr>)"

definition loadMore :: "search_state \<Rightarrow> search_state" where
  "loadMore s =
     (if \<not> loading s \<and> hasMore s \<and> query s \<noteq> [] \<and> \<not> isInitialLoad s then
        let nextPage = page s + 1
        in searchMovies (query s) nextPage (s\<lparr>page := nextPage\<rparr>)
      else s)"

text \<open>
  The effect on \<^verbatim>\<open>[query, debouncedSearchFn]\<close>: its body, and the cleanup React runs before
  the next run of the effect and at unmount.
\<close>

definition query_effect :: "nat \<Rightarrow> search_state \<Rightarrow> search_state" where
  "query_effect delay s =
     (if query s \<noteq> [] then debouncedSearchFn delay (query s) s
      else s\<lparr>results := None, page := 1, hasMore := False, isInitialLoad := True\<rparr>)"

definition effect_cleanup :: "search_state \<Rightarrow> search_state" where
  "effect_cleanup s = abort_current s"

text \<open>
  \<^verbatim>\<open>setQuery\<close> is the \<^verbatim>\<open>useState\<close> setter: a value equal to the current one changes nothing
  and re-runs no effect; a new value is stored, the previous effect is cleaned up and the
  effect runs for the new query.
\<close>

definition setQuery :: "nat \<Rightarrow> string \<Rightarrow> search_state \<Rightarrow> search_state" where
  "setQuery delay newQuery s =
     (if newQuery = query s then s
      else query_effect delay (effect_cleanup (s\<lparr>query := newQuery\<rparr>)))"

text \<open>
  What can happen to a mounted hook: the caller sets the query, time passes, the request
  of controller \<open>c\<close> settles with some outcome (the continuation of the call that issued
  it, with that call's page), the caller asks for more. \<open>reachable\<close> are the states the
  hook can be in.
\<close>

datatype event =
    SetQuery string
  | Advance nat
  | Settle nat "IMovieSearchResponse outcome"
  | LoadMore

fun step :: "nat \<Rightarrow> event \<Rightarrow> search_state \<Rightarrow> search_state" where
  "step delay (SetQuery newQuery) s = setQuery delay newQuery s"
| "step delay (Advance d) s = advance d s"
| "step delay (Settle c out) s =
     (case find (\<lambda>r. fst r = c) (requests s) of
        None \<Rightarrow> s
      | Some r \<Rightarrow> searchMovies_settle c (snd (snd r)) out s)"
| "step delay LoadMore s = loadMore s"

definition run :: "nat \<Rightarrow> event list \<Rightarrow> search_state \<Rightarrow> search_state" where
  "run delay es s = foldl (\<lambda>s e. step delay e s) s es"

inductive reachable :: "nat \<Rightarrow> search_state \<Rightarrow> bool" for delay :: nat where
  mount: "reachable delay init"
| after: "reachable delay s \<Longrightarrow> reachable delay (step delay e s)"

text \<open>
  A burst of \<^verbatim>\<open>setQuery\<close> calls: each call is followed by the time that passes before the
  next one.
\<close>

fun typing :: "nat \<Rightarrow> (string \<times> nat) list \<Rightarrow> search_state \<Rightarrow> search_state" where
  "typing delay [] s = s"
| "typing delay ((newQuery, gap) # rest) s =
     typing delay rest (advance gap (setQuery delay newQuery s))"


section \<open>Sample data\<close>

definition batman_begins :: IMovie where
  "batman_begins = \<lparr>imdbID = ''tt0372784'', Title = ''Batman Begins'', Year = ''2005'',
     Type = ''movie'', Poster = ''N/A''\<rparr>"

definition dark_knight :: IMovie where
  "dark_knight = \<lparr>imdbID = ''tt0468569'', Title = ''The Dark Knight'', Year = ''2008'',
     Type = ''movie'', Poster = ''N/A''\<rparr>"

definition first_page :: IMovieSearchResponse where
  "first_page = \<lparr>Search = Some [batman_begins], totalResults = ''100'',
     Response = ''True'', Error = None\<rparr>"

definition next_page :: IMovieSearchResponse where
  "next_page = \<lparr>Search = Some [dark_knight], totalResults = ''100'',
     Response = ''True'', Error = None\<rparr>"

definition limit_body :: IMovieSearchResponse where
  "limit_body = \<lparr>Search = None, totalResults = [],
     Response = ''False'', Error = Some ''Request limit reached!''\<rparr>"

definition not_found_body :: IMovieSearchResponse where
  "not_found_body = \<lparr>Search = None, totalResults = [],
     Response = ''False'', Error = Some ''Movie not found!''\<rparr>"

definition no_error_body :: IMovieSearchResponse where
  "no_error_body = \<lparr>Search = None, totalResults = [],
     Response = ''False'', Error = None\<rparr>"

definition rate_text_body :: IMovieSearchResponse where
  "rate_text_body = \<lparr>Search = None, totalResults = [],
     Response = ''False'', Error = Some ''API rate limit reached. Please try again later.''\<rparr>"

definition batman_details :: IMovieDetails where
  "batman_details = \<lparr>imdbID = ''tt0372784'', Title = ''Batman Begins'', Year = ''2005'',
     Type = ''movie'', Poster = ''N/A'', Rated = ''PG-13'', Released = ''15 Jun 2005'',
     Runtime = ''140 min'', Genre = ''Action'', Director = ''Christopher Nolan'',
     Writer = ''Bob Kane'', Actors = ''Christian Bale'', Plot = ''A young Bruce Wayne'',
     Language = ''English'', Country = ''United States'', Awards = ''N/A'',
     Ratings = [\<lparr>Source = ''Internet Movie Database'', Value = ''8.2/10''\<rparr>],
     Metascore = ''70'', imdbRating = ''8.2'', imdbVotes = ''1,000,000'', DVD = ''N/A'',
     BoxOffice = ''N/A'', Production = ''N/A'', Website = ''N/A'',
     dResponse = ''True'', dError = None\<rparr>"

definition limit_details :: IMovieDetails where
  "limit_details = batman_details\<lparr>dResponse := ''False'',
     dError := Some ''Request limit reached!''\<rparr>"

definition plain_failure_details :: IMovieDetails where
  "plain_failure_details = batman_details\<lparr>dResponse := ''False'', dError := None\<rparr>"

text \<open>A detail fetcher that has issued nothing, with a cache that holds one record.\<close>

definition cached_fetcher :: details_state where
  "cached_fetcher = \<lparr>details = None, loading = False, error = None,
     abortControllerRef = None, controllers = 0, aborted = {}, requests = [],
     cache = addToCache ''tt0372784'' batman_details empty_cache\<rparr>"

text \<open>
  The orchestrator after the query \<open>bat\<close> was typed and its debounced search was issued
  (\<open>searching_bat\<close>), and after the first page of that search has landed (\<open>loaded_bat\<close>).
\<close>

definition searching_bat :: search_state where
  "searching_bat = run 300 [SetQuery ''bat'', Advance 300] init"

definition loaded_bat :: search_state where
  "loaded_bat = run 300 [SetQuery ''bat'', Advance 300, Settle 0 (Resolved first_page)] init"



section \<open>Result cache: frame properties\<close>

lemma fold_delete_filter:
  "fold AList.delete ks xs = filter (\<lambda>p. fst p \<notin> set ks) xs"
  by (induction ks arbitrary: xs) (auto simp add: AList.delete_eq intro: filter_cong)

lemma fold_removeFromCache:
  "fold removeFromCache ks c = c\<lparr>own := fold AList.delete ks (own c)\<rparr>"
  by (induction ks arbitrary: c) (simp_all add: removeFromCache_def)

lemma clearCache_own: "clearCache c = c\<lparr>own := []\<rparr>"
  by (simp add: clearCache_def fold_removeFromCache fold_delete_filter)

lemma get_after_add:
  "k \<noteq> ''__proto__'' \<Longrightarrow> getFromCache (addToCache k d c) k = Some (Details d)"
  by (simp add: getFromCache_def get_property_def addToCache_def update_conv')

lemma get_property_cong:
  "map_of (own c1) k = map_of (own c2) k \<Longrightarrow> proto c1 = proto c2 \<Longrightarrow>
   get_property c1 k = get_property c2 k"
  unfolding get_property_def by (erule ssubst, erule ssubst) (rule refl)

lemma get_property_remove:
  "k' \<noteq> k \<Longrightarrow> get_property (removeFromCache k c) k' = get_property c k'"
  by (rule get_property_cong) (simp_all add: removeFromCache_def delete_conv')

lemma get_property_add:
  "k' \<noteq> k \<Longrightarrow> k \<noteq> ''__proto__'' \<Longrightarrow> get_property (addToCache k d c) k' = get_property c k'"
  by (rule get_property_cong) (simp_all add: addToCache_def update_conv')

text \<open>
  Claim C10, as stated, fails: the keys \<^verbatim>\<open>__proto__\<close> and \<^verbatim>\<open>imdbID\<close> are distinct, and
  \<^verbatim>\<open>addToCache("__proto__", record)\<close> on the empty cache changes what \<^verbatim>\<open>getFromCache("imdbID")\<close>
  returns, from \<^verbatim>\<open>null\<close> to the record's \<^verbatim>\<open>imdbID\<close> string.
\<close>

theorem proto_key_counterexample:
  "''imdbID'' \<noteq> ''__proto__''
   \<and> getFromCache empty_cache ''imdbID'' = None
   \<and> getFromCache (addToCache ''__proto__'' batman_details empty_cache) ''imdbID''
       = Some (Text ''tt0372784'')"
  by (simp add: getFromCache_def get_property_def addToCache_def empty_cache_def
      details_property_def batman_details_def Object_prototype_members_def)

text \<open>
  Claim C10, amended. For distinct keys \<open>k\<close> and \<open>k'\<close>: \<^verbatim>\<open>removeFromCache(k)\<close> leaves what
  \<^verbatim>\<open>getFromCache(k')\<close> returns unchanged, and so does \<^verbatim>\<open>addToCache(k, record)\<close> when \<open>k\<close> is
  not \<^verbatim>\<open>__proto__\<close>. \<^verbatim>\<open>getFromCache\<close> only reads: it is a function of the cache that returns
  the value read and no cache. \<^verbatim>\<open>clearCache\<close> removes every stored entry and nothing else.
\<close>

theorem cache_frame:
  "k' \<noteq> k \<Longrightarrow>
     getFromCache (removeFromCache k c) k' = getFromCache c k'
   \<and> (k \<noteq> ''__proto__'' \<longrightarrow> getFromCache (addToCache k d c) k' = getFromCache c k')
   \<and> own (clearCache c) = []
   \<and> proto (clearCache c) = proto c"
  by (simp add: getFromCache_def get_property_remove get_property_add clearCache_own)

theorem cache_frame_witness:
  "''tt0468569'' \<noteq> ''tt0372784''
   \<and> ''tt0372784'' \<noteq> ''__proto__''
   \<and> getFromCache (addToCache ''tt0468569'' batman_details empty_cache) ''tt0468569''
       = Some (Details batman_details)
   \<and> getFromCache (addToCache ''tt0372784'' limit_details
        (addToCache ''tt0468569'' batman_details empty_cache)) ''tt0468569''
       = Some (Details batman_details)
   \<and> getFromCache (removeFromCache ''tt0372784''
        (addToCache ''tt0468569'' batman_details empty_cache)) ''tt0468569''
       = Some (Details batman_details)"
proof -
  let ?c = "addToCache ''tt0468569'' batman_details empty_cache"
  have ne: "''tt0468569'' \<noteq> ''tt0372784''" and np: "''tt0372784'' \<noteq> ''__proto__''"
    by simp_all
  have g: "getFromCache ?c ''tt0468569'' = Some (Details batman_details)"
    by (simp add: getFromCache_def get_property_def addToCache_def empty_cache_def)
  from cache_frame [OF ne, of ?c limit_details] np g ne show ?thesis
    by simp
qed

section \<open>Detail fetcher\<close>

lemma fetchDetails_requests:
  "movieId \<noteq> [] \<Longrightarrow>
   details_state.requests (fetchDetails movieId s)
     = details_state.requests s @ [(details_state.controllers s, movieId)]"
  by (simp add: fetchDetails_def Let_def split: option.splits)

text \<open>
  Claim C2. The claim asks \<^verbatim>\<open>fetchDetails\<close> to return the cached record without a network
  request when the key is in the cache. The code never looks the cache up: with the record
  of \<open>tt0372784\<close> in the cache, \<^verbatim>\<open>fetchDetails("tt0372784")\<close> calls \<^verbatim>\<open>omdbService.getDetails\<close>,
  sets \<open>loading\<close> and leaves \<open>details\<close> empty until the response arrives.
\<close>

theorem fetchDetails_ignores_cache:
  "getFromCache (cache cached_fetcher) ''tt0372784'' = Some (Details batman_details)
   \<and> details_state.requests (fetchDetails ''tt0372784'' cached_fetcher) = [(0, ''tt0372784'')]
   \<and> details_state.loading (fetchDetails ''tt0372784'' cached_fetcher)
   \<and> details (fetchDetails ''tt0372784'' cached_fetcher) = None"
  by (simp add: cached_fetcher_def fetchDetails_def getFromCache_def get_property_def
      addToCache_def empty_cache_def Let_def)

section \<open>Search orchestrator: supersession\<close>

lemma settle_stale:
  "abortControllerRef s \<noteq> Some c \<Longrightarrow> searchMovies_settle c p out s = s"
  by (simp add: searchMovies_settle_def on_response_def on_failure_def split: outcome.splits)

lemma settle_current_loading:
  "abortControllerRef s = Some c \<Longrightarrow> \<not> loading (searchMovies_settle c p out s)"
  by (simp add: searchMovies_settle_def on_response_def on_failure_def Let_def
      split: outcome.splits)

lemma searchMovies_ref:
  "trim q \<noteq> [] \<Longrightarrow> abortControllerRef (searchMovies q p s) = Some (controllers s)"
  by (simp add: searchMovies_def abort_current_def Let_def split: option.splits)

lemma searchMovies_controllers:
  "trim q \<noteq> [] \<Longrightarrow> controllers (searchMovies q p s) = Suc (controllers s)"
  by (simp add: searchMovies_def abort_current_def Let_def split: option.splits)

lemma searchMovies_requests:
  "trim q \<noteq> [] \<Longrightarrow> requests (searchMovies q p s) = requests s @ [(controllers s, q, p)]"
  by (simp add: searchMovies_def abort_current_def Let_def split: option.splits)

text \<open>
  Controllers are never reused: a controller that exists and is not the current one is
  not the current one after any further event, so a superseded call stays superseded.
\<close>

lemma superseded_step:
  "c < controllers s \<Longrightarrow> abortControllerRef s \<noteq> Some c \<Longrightarrow>
   c < controllers (step delay e s) \<and> abortControllerRef (step delay e s) \<noteq> Some c"
proof (cases e)
  case (SetQuery q)
  assume "c < controllers s" "abortControllerRef s \<noteq> Some c"
  with SetQuery show ?thesis
    by (auto simp add: setQuery_def query_effect_def effect_cleanup_def abort_current_def
        debouncedSearchFn_def split: option.splits)
next
  case (Advance d)
  assume "c < controllers s" "abortControllerRef s \<noteq> Some c"
  with Advance show ?thesis
    by (auto simp add: advance_def debouncedSearch_def searchMovies_def abort_current_def
        Let_def split: option.splits)
next
  case (Settle c' out)
  assume "c < controllers s" "abortControllerRef s \<noteq> Some c"
  with Settle show ?thesis
    by (auto simp add: searchMovies_settle_def on_response_def on_failure_def Let_def
        split: option.splits outcome.splits)
next
  case LoadMore
  assume "c < controllers s" "abortControllerRef s \<noteq> Some c"
  with LoadMore show ?thesis
    by (auto simp add: loadMore_def searchMovies_def abort_current_def Let_def
        split: option.splits)
qed

lemma superseded_run:
  "c < controllers s \<Longrightarrow> abortControllerRef s \<noteq> Some c \<Longrightarrow>
   c < controllers (run delay es s) \<and> abortControllerRef (run delay es s) \<noteq> Some c"
  unfolding run_def
  by (induction es arbitrary: s) (simp_all add: superseded_step)

lemma superseded_late_arrival:
  "c < controllers s \<Longrightarrow> abortControllerRef s \<noteq> Some c \<Longrightarrow>
   searchMovies_settle c p out (run delay es s) = run delay es s"
  by (simp add: settle_stale superseded_run)

lemmas eval_defs = run_def setQuery_def query_effect_def effect_cleanup_def abort_current_def
  debouncedSearchFn_def advance_def debouncedSearch_def searchMovies_def searchMovies_settle_def
  on_response_def on_failure_def loadMore_def init_def trim_def is_space_def parseInt_def
  is_digit_def digits_value_def js_gt_def or_else_def Search_or_empty_def prev_Search_def
  first_page_def next_page_def batman_begins_def dark_knight_def Let_def

lemma searching_bat_eval:
  "searching_bat = \<lparr>query = ''bat'', results = None, loading = True, error = None, page = 1,
     hasMore = False, abortControllerRef = Some 0, isInitialLoad = True,
     controllers = 1, aborted = {}, requests = [(0, ''bat'', 1)], now = 300, timer = None\<rparr>"
  by (simp add: searching_bat_def eval_defs)

lemma loaded_bat_eval:
  "loaded_bat = \<lparr>query = ''bat'', results = Some first_page, loading = False, error = None,
     page = 1, hasMore = True, abortControllerRef = Some 0, isInitialLoad = False,
     controllers = 1, aborted = {}, requests = [(0, ''bat'', 1)], now = 300, timer = None\<rparr>"
  by (simp add: loaded_bat_def eval_defs)

text \<open>
  Claim C1. A call of \<^verbatim>\<open>searchMovies\<close> whose controller is no longer the current one changes
  nothing when it settles, whatever it settles with (a response, a failure, a
  cancellation). In particular, when search A (a non-blank query, controller
  \<open>controllers s\<close>) is followed by search B (non-blank) before A settles, settling A leaves
  the state as B made it, also when A settles after any further events. A settling call
  that is the current one ends with \<open>loading\<close> false, and a settling call changes
  \<open>loading\<close> only if it is the current one.
\<close>

theorem superseded_search_discarded:
  "(abortControllerRef s \<noteq> Some c \<longrightarrow> searchMovies_settle c p out s = s)
   \<and> (trim qA \<noteq> [] \<and> trim qB \<noteq> [] \<longrightarrow>
        requests (searchMovies qA pA s) = requests s @ [(controllers s, qA, pA)]
      \<and> searchMovies_settle (controllers s) pA out (searchMovies qB pB (searchMovies qA pA s))
          = searchMovies qB pB (searchMovies qA pA s)
      \<and> searchMovies_settle (controllers s) pA out
            (run delay es (searchMovies qB pB (searchMovies qA pA s)))
          = run delay es (searchMovies qB pB (searchMovies qA pA s)))
   \<and> (abortControllerRef s = Some c \<longrightarrow> \<not> loading (searchMovies_settle c p out s))
   \<and> (loading (searchMovies_settle c p out s) \<noteq> loading s \<longrightarrow> abortControllerRef s = Some c)"
proof -
  have stale: "abortControllerRef s \<noteq> Some c \<longrightarrow> searchMovies_settle c p out s = s"
    by (simp add: settle_stale)
  have scenario: "trim qA \<noteq> [] \<and> trim qB \<noteq> [] \<longrightarrow>
        requests (searchMovies qA pA s) = requests s @ [(controllers s, qA, pA)]
      \<and> searchMovies_settle (controllers s) pA out (searchMovies qB pB (searchMovies qA pA s))
          = searchMovies qB pB (searchMovies qA pA s)
      \<and> searchMovies_settle (controllers s) pA out
            (run delay es (searchMovies qB pB (searchMovies qA pA s)))
          = run delay es (searchMovies qB pB (searchMovies qA pA s))"
  proof (intro impI conjI)
    assume nb: "trim qA \<noteq> [] \<and> trim qB \<noteq> []"
    then show "requests (searchMovies qA pA s) = requests s @ [(controllers s, qA, pA)]"
      by (simp add: searchMovies_requests)
    from nb have ref: "abortControllerRef (searchMovies qB pB (searchMovies qA pA s))
        = Some (Suc (controllers s))"
      and cs: "controllers s < controllers (searchMovies qB pB (searchMovies qA pA s))"
      by (simp_all add: searchMovies_ref searchMovies_controllers)
    from ref show "searchMovies_settle (controllers s) pA out
          (searchMovies qB pB (searchMovies qA pA s))
        = searchMovies qB pB (searchMovies qA pA s)"
      by (simp add: settle_stale)
    from ref have "abortControllerRef (searchMovies qB pB (searchMovies qA pA s))
        \<noteq> Some (controllers s)"
      by simp
    from superseded_late_arrival [OF cs this]
    show "searchMovies_settle (controllers s) pA out
          (run delay es (searchMovies qB pB (searchMovies qA pA s)))
        = run delay es (searchMovies qB pB (searchMovies qA pA s))" .
  qed
  have current: "abortControllerRef s = Some c \<longrightarrow> \<not> loading (searchMovies_settle c p out s)"
    by (simp add: settle_current_loading)
  have only: "loading (searchMovies_settle c p out s) \<noteq> loading s
      \<longrightarrow> abortControllerRef s = Some c"
    using settle_stale [of s c p out] by (cases "abortControllerRef s = Some c") auto
  from stale scenario current only show ?thesis by blast
qed

theorem superseded_search_discarded_witness:
  "trim ''bat'' \<noteq> [] \<and> trim ''batman'' \<noteq> []
   \<and> abortControllerRef (searchMovies ''batman'' 1 (searchMovies ''bat'' 1 init)) = Some 1
   \<and> searchMovies_settle 0 1 (Resolved first_page)
        (searchMovies ''batman'' 1 (searchMovies ''bat'' 1 init))
       = searchMovies ''batman'' 1 (searchMovies ''bat'' 1 init)
   \<and> abortControllerRef searching_bat = Some 0
   \<and> loading searching_bat
   \<and> \<not> loading (searchMovies_settle 0 1 (Resolved first_page) searching_bat)"
proof -
  let ?sB = "searchMovies ''batman'' 1 (searchMovies ''bat'' 1 init)"
  have nb: "trim ''bat'' \<noteq> [] \<and> trim ''batman'' \<noteq> []"
    by (simp add: trim_def is_space_def)
  have c0: "controllers init = 0"
    by (simp add: init_def)
  from nb c0 have ref: "abortControllerRef ?sB = Some 1"
    by (simp add: searchMovies_ref searchMovies_controllers)
  from superseded_search_discarded [of init 0 1 "Resolved first_page" "''bat''" "''batman''" 1 1]
    nb
  have "searchMovies_settle (controllers init) 1 (Resolved first_page) ?sB = ?sB"
    by blast
  then have late: "searchMovies_settle 0 1 (Resolved first_page) ?sB = ?sB"
    by (simp only: c0)
  have cur: "abortControllerRef searching_bat = Some 0" and ld: "loading searching_bat"
    by (simp_all add: searching_bat_eval)
  from superseded_search_discarded [of searching_bat 0 1 "Resolved first_page"] cur
  have reset: "\<not> loading (searchMovies_settle 0 1 (Resolved first_page) searching_bat)"
    by blast
  from nb ref late cur ld reset show ?thesis
    by blast
qed


section \<open>Search orchestrator: responses and failures\<close>

lemma settle_success_results:
  "abortControllerRef s = Some c \<Longrightarrow> Response response \<noteq> ''False'' \<Longrightarrow> p \<noteq> 1 \<Longrightarrow>
   results (searchMovies_settle c p (Resolved response) s)
     = Some (response\<lparr>Search := Some (prev_Search (results s) @ Search_or_empty response)\<rparr>)"
  by (simp add: searchMovies_settle_def on_response_def Let_def)

text \<open>
  Claim C3, as stated, fails: for a failure with status 401 whose body carries
  \<^verbatim>\<open>Error: "Invalid API key!"\<close>, the message shown is the body's \<^verbatim>\<open>Error\<close>, not the
  credentials-specific string.
\<close>

theorem status_401_body_error_counterexample:
  "error (searchMovies_settle 0 1
      (Rejected (AxiosError (Some (AxiosResponse 401 (Some ''Invalid API key!'')))))
      (searchMovies ''batman'' 1 init))
     = Some ''Invalid API key!''
   \<and> error (searchMovies_settle 0 1
      (Rejected (AxiosError (Some (AxiosResponse 401 (Some ''Invalid API key!'')))))
      (searchMovies ''batman'' 1 init))
     \<noteq> Some ''API key is invalid or missing. Please contact support.''"
  by (simp add: searchMovies_settle_def on_failure_def searchMovies_def init_def
      abort_current_def trim_def is_space_def response_Error_def response_status_def)

text \<open>
  Claim C3, amended. For a failure of the current call with HTTP status 401, the message
  is the \<^verbatim>\<open>Error\<close> of the response body when the body has a non-empty one, and the
  credentials-specific string otherwise.
\<close>

theorem status_401_message:
  "abortControllerRef s = Some c \<Longrightarrow> status r = 401 \<Longrightarrow>
   error (searchMovies_settle c p (Rejected (AxiosError (Some r))) s)
     = Some (case data_Error r of
               Some (x # xs) \<Rightarrow> x # xs
             | _ \<Rightarrow> ''API key is invalid or missing. Please contact support.'')"
  by (simp add: searchMovies_settle_def on_failure_def response_Error_def response_status_def
      split: option.splits list.splits)

theorem status_401_message_witness:
  "abortControllerRef searching_bat = Some 0
   \<and> status (AxiosResponse 401 None) = 401
   \<and> error (searchMovies_settle 0 1 (Rejected (AxiosError (Some (AxiosResponse 401 None))))
        searching_bat)
       = Some ''API key is invalid or missing. Please contact support.''"
proof -
  have cur: "abortControllerRef searching_bat = Some 0"
    by (simp add: searching_bat_eval)
  have st: "status (AxiosResponse 401 None) = 401"
    by simp
  from status_401_message [OF cur st, of 1] cur st show ?thesis
    by simp
qed

text \<open>
  Claim C6. When the current call for a page \<open>p > 1\<close> receives a response that is not
  \<^verbatim>\<open>Response: "False"\<close>, the accumulated records are the previous records followed by the
  records of the response, so the length is the sum of the two lengths, and the
  \<^verbatim>\<open>totalResults\<close> kept is the one of the response.
\<close>

theorem page_append:
  "abortControllerRef s = Some c \<Longrightarrow> Response response \<noteq> ''False'' \<Longrightarrow> 1 < p \<Longrightarrow>
   prev_Search (results (searchMovies_settle c p (Resolved response) s))
     = prev_Search (results s) @ Search_or_empty response
   \<and> length (prev_Search (results (searchMovies_settle c p (Resolved response) s)))
     = length (prev_Search (results s)) + length (Search_or_empty response)
   \<and> map_option totalResults (results (searchMovies_settle c p (Resolved response) s))
     = Some (totalResults response)"
  by (simp add: settle_success_results prev_Search_def Search_or_empty_def)

theorem page_append_witness:
  "abortControllerRef (loadMore loaded_bat) = Some 1
   \<and> Response next_page \<noteq> ''False''
   \<and> (1::nat) < 2
   \<and> prev_Search (results (loadMore loaded_bat)) = [batman_begins]
   \<and> prev_Search (results (searchMovies_settle 1 2 (Resolved next_page) (loadMore loaded_bat)))
       = [batman_begins, dark_knight]"
proof -
  have cur: "abortControllerRef (loadMore loaded_bat) = Some 1"
    by (simp add: loaded_bat_eval loadMore_def searchMovies_def abort_current_def trim_def
        is_space_def Let_def)
  have ok: "Response next_page \<noteq> ''False''"
    by (simp add: next_page_def)
  have p: "(1::nat) < 2"
    by simp
  have prev: "prev_Search (results (loadMore loaded_bat)) = [batman_begins]"
    by (simp add: loaded_bat_eval loadMore_def searchMovies_def abort_current_def trim_def
        is_space_def Let_def prev_Search_def Search_or_empty_def first_page_def)
  have new: "Search_or_empty next_page = [dark_knight]"
    by (simp add: Search_or_empty_def next_page_def)
  from page_append [OF cur ok p] prev new cur ok p show ?thesis
    by simp
qed

text \<open>
  Claim C7. After the current call for page \<open>p\<close> receives a response that is not
  \<^verbatim>\<open>Response: "False"\<close>, \<open>hasMore\<close> is true exactly when the response holds at least one
  record and \<^verbatim>\<open>parseInt(totalResults, 10) > p * 10\<close>; for a \<^verbatim>\<open>totalResults\<close> that reads as the
  number \<open>total\<close> this is \<open>total > p * 10\<close>.
\<close>

theorem hasMore_after_success:
  "abortControllerRef s = Some c \<Longrightarrow> Response response \<noteq> ''False'' \<Longrightarrow>
   hasMore (searchMovies_settle c p (Resolved response) s)
     = (0 < length (Search_or_empty response)
        \<and> js_gt (parseInt (totalResults response)) (int p * 10))
   \<and> (\<forall>total. parseInt (totalResults response) = Some total \<longrightarrow>
        hasMore (searchMovies_settle c p (Resolved response) s)
          = (0 < length (Search_or_empty response) \<and> total > int p * 10))"
  by (auto simp add: searchMovies_settle_def on_response_def Let_def js_gt_def)

theorem hasMore_after_success_witness:
  "abortControllerRef searching_bat = Some 0
   \<and> Response first_page \<noteq> ''False''
   \<and> parseInt (totalResults first_page) = Some 100
   \<and> length (Search_or_empty first_page) = 1
   \<and> hasMore (searchMovies_settle 0 1 (Resolved first_page) searching_bat)
   \<and> \<not> hasMore (searchMovies_settle 0 10 (Resolved first_page) searching_bat)"
proof -
  have cur: "abortControllerRef searching_bat = Some 0"
    by (simp add: searching_bat_eval)
  have ok: "Response first_page \<noteq> ''False''"
    by (simp add: first_page_def)
  have total: "parseInt (totalResults first_page) = Some 100"
    by (simp add: first_page_def parseInt_def is_space_def is_digit_def digits_value_def)
  have len: "length (Search_or_empty first_page) = 1"
    by (simp add: Search_or_empty_def first_page_def)
  from hasMore_after_success [OF cur ok, of 1] total len
  have yes: "hasMore (searchMovies_settle 0 1 (Resolved first_page) searching_bat)"
    by (simp add: js_gt_def)
  from hasMore_after_success [OF cur ok, of 10] total len
  have no: "\<not> hasMore (searchMovies_settle 0 10 (Resolved first_page) searching_bat)"
    by (simp add: js_gt_def)
  from cur ok total len yes no show ?thesis
    by blast
qed

text \<open>
  Claim C9, as stated, fails: a body with \<^verbatim>\<open>Response: "False"\<close> whose \<^verbatim>\<open>Error\<close> is not
  \<^verbatim>\<open>"Request limit reached!"\<close> but the text of the rate-limit message gets that very
  message, so the message of the other branch is not always distinct from it.
\<close>

theorem rate_text_passthrough_counterexample:
  "Response rate_text_body = ''False''
   \<and> Error rate_text_body \<noteq> Some ''Request limit reached!''
   \<and> error (searchMovies_settle 0 1 (Resolved rate_text_body) searching_bat)
       = Some ''API rate limit reached. Please try again later.''"
  by (simp add: rate_text_body_def searching_bat_eval searchMovies_settle_def on_response_def
      or_else_def)

text \<open>
  Claim C9, amended. When the current call receives a body with \<^verbatim>\<open>Response: "False"\<close>: if
  \<^verbatim>\<open>Error\<close> is exactly \<^verbatim>\<open>"Request limit reached!"\<close> the message is the rate-limit string,
  which is not the raw \<^verbatim>\<open>Error\<close>; otherwise the message is the body's \<^verbatim>\<open>Error\<close> when it is
  present and not empty, and \<^verbatim>\<open>"No results found"\<close> when it is absent or empty, so it is the
  rate-limit string only when the body's \<^verbatim>\<open>Error\<close> is that text. In both cases \<open>results\<close>
  is cleared and \<open>hasMore\<close> is false. The detail fetcher special-cases the same \<^verbatim>\<open>Error\<close>,
  falls back to \<^verbatim>\<open>"Failed to fetch movie details"\<close>, and clears \<open>details\<close>.
\<close>

theorem response_false_message:
  "abortControllerRef s = Some c \<Longrightarrow> Response response = ''False'' \<Longrightarrow>
   details_state.abortControllerRef ds = Some c' \<Longrightarrow> dResponse dresponse = ''False'' \<Longrightarrow>
   error (searchMovies_settle c p (Resolved response) s)
     = Some (if Error response = Some ''Request limit reached!''
             then ''API rate limit reached. Please try again later.''
             else (case Error response of
                     Some (x # xs) \<Rightarrow> x # xs
                   | _ \<Rightarrow> ''No results found''))
   \<and> ''API rate limit reached. Please try again later.'' \<noteq> ''Request limit reached!''
   \<and> (Error response \<noteq> Some ''Request limit reached!'' \<longrightarrow>
        (error (searchMovies_settle c p (Resolved response) s)
           = Some ''API rate limit reached. Please try again later.'')
        = (Error response = Some ''API rate limit reached. Please try again later.''))
   \<and> results (searchMovies_settle c p (Resolved response) s) = None
   \<and> \<not> hasMore (searchMovies_settle c p (Resolved response) s)
   \<and> details_state.error (fetchDetails_settle c' (Resolved dresponse) ds)
     = Some (if dError dresponse = Some ''Request limit reached!''
             then ''API rate limit reached. Please try again later.''
             else (case dError dresponse of
                     Some (x # xs) \<Rightarrow> x # xs
                   | _ \<Rightarrow> ''Failed to fetch movie details''))
   \<and> details (fetchDetails_settle c' (Resolved dresponse) ds) = None"
proof -
  assume cur: "abortControllerRef s = Some c" and f: "Response response = ''False''"
    and dcur: "details_state.abortControllerRef ds = Some c'"
    and df: "dResponse dresponse = ''False''"
  have m: "error (searchMovies_settle c p (Resolved response) s)
     = Some (if Error response = Some ''Request limit reached!''
             then ''API rate limit reached. Please try again later.''
             else (case Error response of
                     Some (x # xs) \<Rightarrow> x # xs
                   | _ \<Rightarrow> ''No results found''))"
    using cur f
    by (simp add: searchMovies_settle_def on_response_def or_else_def
        split: option.splits list.splits)
  have iff: "Error response \<noteq> Some ''Request limit reached!'' \<longrightarrow>
        (error (searchMovies_settle c p (Resolved response) s)
           = Some ''API rate limit reached. Please try again later.'')
        = (Error response = Some ''API rate limit reached. Please try again later.'')"
    unfolding m by (auto split: option.splits list.splits)
  have rs: "results (searchMovies_settle c p (Resolved response) s) = None
     \<and> \<not> hasMore (searchMovies_settle c p (Resolved response) s)"
    using cur f by (simp add: searchMovies_settle_def on_response_def)
  have dm: "details_state.error (fetchDetails_settle c' (Resolved dresponse) ds)
     = Some (if dError dresponse = Some ''Request limit reached!''
             then ''API rate limit reached. Please try again later.''
             else (case dError dresponse of
                     Some (x # xs) \<Rightarrow> x # xs
                   | _ \<Rightarrow> ''Failed to fetch movie details''))
     \<and> details (fetchDetails_settle c' (Resolved dresponse) ds) = None"
    using dcur df
    by (simp add: fetchDetails_settle_def or_else_def split: option.splits list.splits)
  have ne: "''API rate limit reached. Please try again later.'' \<noteq> ''Request limit reached!''"
    by simp
  from m ne iff rs dm show ?thesis
    by blast
qed

theorem response_false_message_witness:
  "abortControllerRef searching_bat = Some 0
   \<and> Response limit_body = ''False''
   \<and> Response not_found_body = ''False''
   \<and> Response no_error_body = ''False''
   \<and> Error not_found_body \<noteq> Some ''Request limit reached!''
   \<and> details_state.abortControllerRef (fetchDetails ''tt0372784'' cached_fetcher) = Some 0
   \<and> dResponse limit_details = ''False''
   \<and> dResponse plain_failure_details = ''False''
   \<and> error (searchMovies_settle 0 1 (Resolved limit_body) searching_bat)
       = Some ''API rate limit reached. Please try again later.''
   \<and> error (searchMovies_settle 0 1 (Resolved not_found_body) searching_bat)
       = Some ''Movie not found!''
   \<and> error (searchMovies_settle 0 1 (Resolved no_error_body) searching_bat)
       = Some ''No results found''
   \<and> details_state.error (fetchDetails_settle 0 (Resolved limit_details)
        (fetchDetails ''tt0372784'' cached_fetcher))
       = Some ''API rate limit reached. Please try again later.''
   \<and> details_state.error (fetchDetails_settle 0 (Resolved plain_failure_details)
        (fetchDetails ''tt0372784'' cached_fetcher))
       = Some ''Failed to fetch movie details''"
proof -
  have cur: "abortControllerRef searching_bat = Some 0"
    by (simp add: searching_bat_eval)
  have f1: "Response limit_body = ''False''"
    and e1: "Error limit_body = Some ''Request limit reached!''"
    by (simp_all add: limit_body_def)
  have f2: "Response not_found_body = ''False''"
    and e2: "Error not_found_body = Some ''Movie not found!''"
    by (simp_all add: not_found_body_def)
  have f3: "Response no_error_body = ''False''" and e3: "Error no_error_body = None"
    by (simp_all add: no_error_body_def)
  have dcur: "details_state.abortControllerRef (fetchDetails ''tt0372784'' cached_fetcher) = Some 0"
    by (simp add: fetchDetails_def cached_fetcher_def Let_def)
  have df1: "dResponse limit_details = ''False''"
    and de1: "dError limit_details = Some ''Request limit reached!''"
    by (simp_all add: limit_details_def)
  have df2: "dResponse plain_failure_details = ''False''"
    and de2: "dError plain_failure_details = None"
    by (simp_all add: plain_failure_details_def)
  from response_false_message [OF cur f1 dcur df1, of 1] e1 de1
  have m1: "error (searchMovies_settle 0 1 (Resolved limit_body) searching_bat)
       = Some ''API rate limit reached. Please try again later.''"
    and d1: "details_state.error (fetchDetails_settle 0 (Resolved limit_details)
        (fetchDetails ''tt0372784'' cached_fetcher))
       = Some ''API rate limit reached. Please try again later.''"
    by simp_all
  from response_false_message [OF cur f2 dcur df2, of 1] e2 de2
  have m2: "error (searchMovies_settle 0 1 (Resolved not_found_body) searching_bat)
       = Some ''Movie not found!''"
    and d2: "details_state.error (fetchDetails_settle 0 (Resolved plain_failure_details)
        (fetchDetails ''tt0372784'' cached_fetcher))
       = Some ''Failed to fetch movie details''"
    by simp_all
  from response_false_message [OF cur f3 dcur df2, of 1] e3
  have m3: "error (searchMovies_settle 0 1 (Resolved no_error_body) searching_bat)
       = Some ''No results found''"
    by simp
  from cur f1 f2 f3 e2 dcur df1 df2 m1 m2 m3 d1 d2 show ?thesis
    by simp
qed

section \<open>Search orchestrator: controllers of reachable states\<close>









lemma reachable_run: "reachable delay s \<Longrightarrow> reachable delay (run delay es s)"
  unfolding run_def
  by (induction es arbitrary: s) (simp_all add: reachable.after)






section \<open>Search orchestrator: debounce\<close>

lemma setQuery_changed:
  "q \<noteq> [] \<Longrightarrow> q \<noteq> query s \<Longrightarrow>
   timer (setQuery delay q s) = Some (now s + delay, q)
   \<and> now (setQuery delay q s) = now s
   \<and> query (setQuery delay q s) = q
   \<and> requests (setQuery delay q s) = requests s
   \<and> controllers (setQuery delay q s) = controllers s"
  by (simp add: setQuery_def query_effect_def effect_cleanup_def abort_current_def
      debouncedSearchFn_def split: option.splits)

lemma advance_before_deadline:
  "timer s = Some (deadline, q) \<Longrightarrow> now s + gap < deadline \<Longrightarrow>
   query (advance gap s) = query s
   \<and> requests (advance gap s) = requests s
   \<and> controllers (advance gap s) = controllers s"
  by (simp add: advance_def)

lemma advance_fires:
  "timer s = Some (deadline, q) \<Longrightarrow> deadline \<le> now s + wait \<Longrightarrow>
   advance wait s = (debouncedSearch q (s\<lparr>timer := None\<rparr>))\<lparr>now := now s + wait\<rparr>"
  by (simp add: advance_def)

lemma debouncedSearch_fresh:
  "page (debouncedSearch q s) = 1 \<and> \<not> hasMore (debouncedSearch q s)
   \<and> timer (debouncedSearch q s) = timer s
   \<and> (trim q \<noteq> [] \<longrightarrow>
        requests (debouncedSearch q s) = requests s @ [(controllers s, q, 1)]
      \<and> abortControllerRef (debouncedSearch q s) = Some (controllers s))"
  by (simp add: debouncedSearch_def searchMovies_def abort_current_def Let_def
      split: option.splits)

lemma settle_first_page:
  "abortControllerRef s = Some c \<Longrightarrow> Response response \<noteq> ''False'' \<Longrightarrow>
   results (searchMovies_settle c 1 (Resolved response) s) = Some response"
  by (simp add: searchMovies_settle_def on_response_def Let_def)

lemma typing_quiet:
  "\<forall>k \<in> set keys. fst k \<noteq> [] \<and> snd k < delay \<Longrightarrow>
   distinct_adj (query s # map fst keys) \<Longrightarrow>
   query (typing delay keys s) = last (query s # map fst keys)
   \<and> requests (typing delay keys s) = requests s
   \<and> controllers (typing delay keys s) = controllers s"
proof (induction keys arbitrary: s)
  case Nil
  show ?case by simp
next
  case (Cons k keys)
  obtain q gap where k: "k = (q, gap)" by (cases k)
  from Cons.prems k have ne: "q \<noteq> []" and gap: "gap < delay" and ch: "q \<noteq> query s"
    by auto
  let ?s1 = "setQuery delay q s"
  let ?s2 = "advance gap ?s1"
  from setQuery_changed [OF ne ch, of delay]
  have s1: "timer ?s1 = Some (now s + delay, q)" "now ?s1 = now s" "query ?s1 = q"
    "requests ?s1 = requests s" "controllers ?s1 = controllers s"
    by simp_all
  from gap s1 have "now ?s1 + gap < now s + delay" by simp
  from advance_before_deadline [OF s1(1) this] s1
  have s2: "query ?s2 = q" "requests ?s2 = requests s" "controllers ?s2 = controllers s"
    by simp_all
  from Cons.prems k have rest: "\<forall>k \<in> set keys. fst k \<noteq> [] \<and> snd k < delay"
    and adj: "distinct_adj (query ?s2 # map fst keys)"
    by (simp_all add: s2)
  from Cons.IH [OF rest adj] s2 k show ?case by simp
qed

text \<open>
  Claim C5, as stated, fails. Three \<^verbatim>\<open>setQuery\<close> calls with non-blank texts, each less than
  the delay of 300 ms after the one before, give two searches: the second call repeats
  the text \<open>b\<close>, so it is ignored and does not restart the timer, which expires 300 ms
  after the first call and before the third.
\<close>

theorem repeated_query_counterexample:
  "trim ''b'' \<noteq> [] \<and> trim ''ba'' \<noteq> [] \<and> (200::nat) < 300
   \<and> requests (advance 300 (setQuery 300 ''ba''
        (typing 300 [(''b'', 200), (''b'', 200)] init)))
       = [(0, ''b'', 1), (1, ''ba'', 1)]"
  by (simp add: eval_defs)

text \<open>
  Claim C5, amended. A burst of \<^verbatim>\<open>setQuery\<close> calls, each changing the query to a non-empty text and
  each followed by less than \<open>delay\<close> milliseconds, then a last call with a non-blank text
  \<open>q\<close> followed by at least \<open>delay\<close> milliseconds, issues exactly one request: the one for
  \<open>q\<close> at page 1. When the debounced function runs, \<open>page\<close> is 1 and \<open>hasMore\<close> is false,
  whatever they were, and the request it issues is for page 1; when that request brings a
  page, the page replaces the result set.
\<close>

theorem debounce_burst:
  "\<forall>k \<in> set keys. fst k \<noteq> [] \<and> snd k < delay \<Longrightarrow>
   distinct_adj (query s # map fst keys @ [q]) \<Longrightarrow>
   trim q \<noteq> [] \<Longrightarrow> delay \<le> wait \<Longrightarrow> Response response \<noteq> ''False'' \<Longrightarrow>
   requests (advance wait (setQuery delay q (typing delay keys s)))
     = requests s @ [(controllers s, q, 1)]
   \<and> page (advance wait (setQuery delay q (typing delay keys s))) = 1
   \<and> \<not> hasMore (advance wait (setQuery delay q (typing delay keys s)))
   \<and> timer (advance wait (setQuery delay q (typing delay keys s))) = None
   \<and> results (searchMovies_settle (controllers s) 1 (Resolved response)
        (advance wait (setQuery delay q (typing delay keys s)))) = Some response
   \<and> page (debouncedSearch q s0) = 1
   \<and> \<not> hasMore (debouncedSearch q s0)
   \<and> requests (debouncedSearch q s0) = requests s0 @ [(controllers s0, q, 1)]"
proof -
  assume keys: "\<forall>k \<in> set keys. fst k \<noteq> [] \<and> snd k < delay"
    and adj: "distinct_adj (query s # map fst keys @ [q])"
    and nb: "trim q \<noteq> []" and wait: "delay \<le> wait"
    and ok: "Response response \<noteq> ''False''"
  let ?s0 = "typing delay keys s"
  let ?s1 = "setQuery delay q ?s0"
  from nb have ne: "q \<noteq> []" by (auto simp add: trim_def)
  from adj have "distinct_adj ((query s # map fst keys) @ [q])" by simp
  then have adj1: "distinct_adj (query s # map fst keys)"
    and ch0: "last (query s # map fst keys) \<noteq> q"
    unfolding distinct_adj_append_iff by simp_all
  from typing_quiet [OF keys adj1]
  have s0: "query ?s0 = last (query s # map fst keys)" "requests ?s0 = requests s"
    "controllers ?s0 = controllers s"
    by simp_all
  from ch0 s0 have ch: "q \<noteq> query ?s0" by simp
  from setQuery_changed [OF ne ch, of delay] s0
  have s1: "timer ?s1 = Some (now ?s0 + delay, q)" "now ?s1 = now ?s0"
    "requests ?s1 = requests s" "controllers ?s1 = controllers s"
    by simp_all
  from wait s1 have "now ?s0 + delay \<le> now ?s1 + wait" by simp
  from advance_fires [OF s1(1) this]
  have fire: "advance wait ?s1
      = (debouncedSearch q (?s1\<lparr>timer := None\<rparr>))\<lparr>now := now ?s1 + wait\<rparr>" .
  from debouncedSearch_fresh [of q "?s1\<lparr>timer := None\<rparr>"] nb s1
  have burst: "requests (advance wait ?s1) = requests s @ [(controllers s, q, 1)]
     \<and> page (advance wait ?s1) = 1 \<and> \<not> hasMore (advance wait ?s1)
     \<and> timer (advance wait ?s1) = None"
    and cur: "abortControllerRef (advance wait ?s1) = Some (controllers s)"
    by (simp_all add: fire)
  from settle_first_page [OF cur ok]
  have fresh: "results (searchMovies_settle (controllers s) 1 (Resolved response)
      (advance wait ?s1)) = Some response" .
  from debouncedSearch_fresh [of q s0] nb burst fresh show ?thesis
    by simp
qed

theorem debounce_burst_witness:
  "''b'' \<noteq> [] \<and> (100::nat) < 300 \<and> ''ba'' \<noteq> [] \<and> (120::nat) < 300
   \<and> distinct_adj (query init # map fst [(''b'', 100::nat), (''ba'', 120)] @ [''bat''])
   \<and> trim ''bat'' \<noteq> []
   \<and> (300::nat) \<le> 300
   \<and> Response first_page \<noteq> ''False''
   \<and> requests (advance 300 (setQuery 300 ''bat''
        (typing 300 [(''b'', 100), (''ba'', 120)] init))) = [(0, ''bat'', 1)]
   \<and> page (advance 300 (setQuery 300 ''bat''
        (typing 300 [(''b'', 100), (''ba'', 120)] init))) = 1
   \<and> results (searchMovies_settle 0 1 (Resolved first_page)
        (advance 300 (setQuery 300 ''bat''
          (typing 300 [(''b'', 100), (''ba'', 120)] init)))) = Some first_page"
proof -
  have keys: "\<forall>k \<in> set [(''b'', 100), (''ba'', 120)]. fst k \<noteq> [] \<and> snd k < (300::nat)"
    by simp
  have adj: "distinct_adj (query init # map fst [(''b'', 100::nat), (''ba'', 120)] @ [''bat''])"
    by (simp add: init_def)
  have nb: "trim ''bat'' \<noteq> []"
    by (simp add: trim_def is_space_def)
  have wait: "(300::nat) \<le> 300"
    by simp
  have ok: "Response first_page \<noteq> ''False''"
    by (simp add: first_page_def)
  have i: "requests init = []" "controllers init = 0"
    by (simp_all add: init_def)
  from debounce_burst [OF keys adj nb wait ok, of init] i keys adj nb wait ok show ?thesis
    by simp
qed

section \<open>Search orchestrator: loadMore\<close>

text \<open>
  The guards as coded: \<^verbatim>\<open>loadMore\<close> changes nothing when \<open>loading\<close> is true, \<open>hasMore\<close> is
  false, the query is empty or the \<open>isInitialLoad\<close> flag is set; otherwise it increments
  \<open>page\<close> and calls \<^verbatim>\<open>searchMovies\<close> for that page.
\<close>

lemma loadMore_coded_guards:
  "(loading s \<or> \<not> hasMore s \<or> query s = [] \<or> isInitialLoad s \<longrightarrow> loadMore s = s)
   \<and> (\<not> loading s \<and> hasMore s \<and> query s \<noteq> [] \<and> \<not> isInitialLoad s \<longrightarrow>
        loadMore s = searchMovies (query s) (page s + 1) (s\<lparr>page := page s + 1\<rparr>)
      \<and> page (loadMore s) = page s + 1
      \<and> (trim (query s) \<noteq> [] \<longrightarrow>
           requests (loadMore s) = requests s @ [(controllers s, query s, page s + 1)]))"
  by (auto simp add: loadMore_def Let_def searchMovies_def abort_current_def split: option.splits)

text \<open>
  Claim C8. The claim asks \<^verbatim>\<open>loadMore\<close> to do nothing while the first page of the current
  query has not landed. The \<open>isInitialLoad\<close> flag is raised only when the debounced
  search runs, not when the query changes. After the first page of \<open>bat\<close> has landed and
  the query has changed to \<open>batm\<close>, and before the debounce delay has passed, no request
  for \<open>batm\<close> has been issued, yet \<^verbatim>\<open>loadMore\<close> passes its guards: it sets \<open>page\<close> to 2 and
  requests page 2 of \<open>batm\<close>, whose records are then appended to the records of \<open>bat\<close>.
\<close>

theorem loadMore_before_first_page:
  "reachable 300 (setQuery 300 ''batm'' loaded_bat)
   \<and> query (setQuery 300 ''batm'' loaded_bat) = ''batm''
   \<and> requests (setQuery 300 ''batm'' loaded_bat) = [(0, ''bat'', 1)]
   \<and> timer (setQuery 300 ''batm'' loaded_bat) = Some (600, ''batm'')
   \<and> now (setQuery 300 ''batm'' loaded_bat) = 300
   \<and> loadMore (setQuery 300 ''batm'' loaded_bat) \<noteq> setQuery 300 ''batm'' loaded_bat
   \<and> page (loadMore (setQuery 300 ''batm'' loaded_bat)) = 2
   \<and> loading (loadMore (setQuery 300 ''batm'' loaded_bat))
   \<and> requests (loadMore (setQuery 300 ''batm'' loaded_bat))
       = [(0, ''bat'', 1), (1, ''batm'', 2)]
   \<and> prev_Search (results (searchMovies_settle 1 2 (Resolved next_page)
        (loadMore (setQuery 300 ''batm'' loaded_bat))))
       = [batman_begins, dark_knight]"
proof -
  have "reachable 300 loaded_bat"
    unfolding loaded_bat_def by (rule reachable_run [OF reachable.mount])
  then have "reachable 300 (step 300 (SetQuery ''batm'') loaded_bat)"
    by (rule reachable.after)
  then have r: "reachable 300 (setQuery 300 ''batm'' loaded_bat)"
    by simp
  have s: "setQuery 300 ''batm'' loaded_bat
     = \<lparr>query = ''batm'', results = Some first_page, loading = False, error = None,
        page = 1, hasMore = True, abortControllerRef = Some 0, isInitialLoad = False,
        controllers = 1, aborted = {0}, requests = [(0, ''bat'', 1)], now = 300,
        timer = Some (600, ''batm'')\<rparr>"
    by (simp add: loaded_bat_eval setQuery_def query_effect_def effect_cleanup_def
        abort_current_def debouncedSearchFn_def)
  have l: "loadMore (setQuery 300 ''batm'' loaded_bat)
     = \<lparr>query = ''batm'', results = Some first_page, loading = True, error = None,
        page = 2, hasMore = True, abortControllerRef = Some 1, isInitialLoad = False,
        controllers = 2, aborted = {0}, requests = [(0, ''bat'', 1), (1, ''batm'', 2)],
        now = 300, timer = Some (600, ''batm'')\<rparr>"
    by (simp add: s loadMore_def searchMovies_def abort_current_def trim_def is_space_def
        Let_def)
  have m: "prev_Search (results (searchMovies_settle 1 2 (Resolved next_page)
        (loadMore (setQuery 300 ''batm'' loaded_bat)))) = [batman_begins, dark_knight]"
    by (simp add: l searchMovies_settle_def on_response_def prev_Search_def
        Search_or_empty_def first_page_def next_page_def Let_def)
  have q: "query (setQuery 300 ''batm'' loaded_bat) = ''batm''"
    and rq: "requests (setQuery 300 ''batm'' loaded_bat) = [(0, ''bat'', 1)]"
    and tm: "timer (setQuery 300 ''batm'' loaded_bat) = Some (600, ''batm'')"
    and nw: "now (setQuery 300 ''batm'' loaded_bat) = 300"
    and p1: "page (setQuery 300 ''batm'' loaded_bat) = 1"
    by (simp_all add: s)
  have p2: "page (loadMore (setQuery 300 ''batm'' loaded_bat)) = 2"
    and ld: "loading (loadMore (setQuery 300 ''batm'' loaded_bat))"
    and rq2: "requests (loadMore (setQuery 300 ''batm'' loaded_bat))
       = [(0, ''bat'', 1), (1, ''batm'', 2)]"
    by (simp_all add: l)
  have d: "loadMore (setQuery 300 ''batm'' loaded_bat) \<noteq> setQuery 300 ''batm'' loaded_bat"
  proof
    assume "loadMore (setQuery 300 ''batm'' loaded_bat) = setQuery 300 ''batm'' loaded_bat"
    then have "page (loadMore (setQuery 300 ''batm'' loaded_bat))
        = page (setQuery 300 ''batm'' loaded_bat)"
      by (rule arg_cong)
    with p1 p2 show False
      by simp
  qed
  from r q rq tm nw d p2 ld rq2 m show ?thesis
    by blast
qed


end
